theory Spec2Isabelle
  imports Complex_Main
begin

section \<open>Python values\<close>

text \<open>
  A Python \<open>str\<close> is a sequence of Unicode code points, and the layouts count and
  compare code points (glyphs beyond ASCII occur in the literals), so a string is a list
  of code points. ASCII literals are written with \<open>str_lit\<close>.
\<close>

type_synonym pystr = "int list"

definition str_lit :: "string \<Rightarrow> pystr" where
  "str_lit s = map of_char s"

text \<open>
  The values a repository dictionary holds: \<open>None\<close>, an integer or a string.
  \<open>truthy\<close> is Python's truth value, \<open>format_val\<close> what an f-string field
  \<open>{v}\<close> (that is, \<open>str(v)\<close>) produces.
\<close>

datatype pyval = PNone | PInt int | PStr pystr

datatype error =
    KeyError | IndexError | AttributeError | ZeroDivisionError | OverflowError
  | RenderFailure

definition on_ok :: "error + 'a \<Rightarrow> ('a \<Rightarrow> error + 'b) \<Rightarrow> error + 'b" where
  "on_ok r f = (case r of Inl e \<Rightarrow> Inl e | Inr v \<Rightarrow> f v)"

fun truthy :: "pyval \<Rightarrow> bool" where
  "truthy PNone = False"
| "truthy (PInt i) = (i \<noteq> 0)"
| "truthy (PStr s) = (s \<noteq> [])"

function digits_nat :: "int \<Rightarrow> pystr" where
  "digits_nat n = (if n < 10 then [48 + n] else digits_nat (n div 10) @ [48 + n mod 10])"
  by pat_completeness auto
termination
  by (relation "measure nat") (auto simp: int_div_less_self)

declare digits_nat.simps [simp del]

definition str_int :: "int \<Rightarrow> pystr" where
  "str_int i = (if i < 0 then 45 # digits_nat (- i) else digits_nat i)"

fun format_val :: "pyval \<Rightarrow> pystr" where
  "format_val PNone = str_lit ''None''"
| "format_val (PInt i) = str_int i"
| "format_val (PStr s) = s"

text \<open>A repository record is a dictionary; reading a missing key raises \<open>KeyError\<close>.\<close>

type_synonym repo = "string \<rightharpoonup> pyval"

definition getitem :: "repo \<Rightarrow> string \<Rightarrow> error + pyval" where
  "getitem r k = (case r k of None \<Rightarrow> Inl KeyError | Some v \<Rightarrow> Inr v)"

section \<open>Binary floating point\<close>

text \<open>
  \<open>shorten_count\<close> computes with Python floats (IEEE 754 binary64). A finite float is
  the rational it denotes; \<open>fl\<close> rounds a rational to the nearest float, ties to the
  even significand (53 bits, subnormals below \<open>2 ^ - 1022\<close>). \<open>rhe\<close> rounds half to
  even, \<open>ilog b q\<close> is the floor of the logarithm of a positive \<open>q\<close> to base \<open>b\<close>.
\<close>

definition rhe :: "rat \<Rightarrow> int" where
  "rhe q = (let f = \<lfloor>q\<rfloor>; r = q - of_int f
            in if r < 1 / 2 then f else if 1 / 2 < r then f + 1
               else if even f then f else f + 1)"

definition pow_int :: "int \<Rightarrow> int \<Rightarrow> rat" where
  "pow_int b e = (if 0 \<le> e then of_int b ^ nat e else 1 / of_int b ^ nat (- e))"

function ilog_pos :: "int \<Rightarrow> int \<Rightarrow> int" where
  "ilog_pos b n = (if 1 < b \<and> b \<le> n then ilog_pos b (n div b) + 1 else 0)"
  by pat_completeness auto
termination
  by (relation "measure (\<lambda>(b, n). nat n)") (auto simp: int_div_less_self)

declare ilog_pos.simps [simp del]

definition ilog :: "int \<Rightarrow> rat \<Rightarrow> int" where
  "ilog b q =
     (if 1 \<le> q then ilog_pos b \<lfloor>q\<rfloor>
      else (let j = ilog_pos b \<lfloor>1 / q\<rfloor> + 1
            in if q = pow_int b (1 - j) then 1 - j else - j))"

definition fl :: "rat \<Rightarrow> rat" where
  "fl q = (if q = 0 then 0 else
     (let e = ilog 2 \<bar>q\<bar>; quantum = pow_int 2 (max e (- 1022) - 52)
      in of_int (rhe (q / quantum)) * quantum))"

text \<open>
  Converting an \<open>int\<close> to a float rounds correctly and raises \<open>OverflowError\<close> when
  the result is not finite, that is, when it reaches \<open>2 ^ 1024\<close>;
  \<open>int / float\<close> converts the \<open>int\<close> first.
\<close>

definition float_of_int :: "int \<Rightarrow> error + rat" where
  "float_of_int n = (let x = fl (of_int n)
                     in if x \<noteq> 0 \<and> 1024 \<le> ilog 2 \<bar>x\<bar> then Inl OverflowError else Inr x)"

text \<open>
  \<open>round(x, 1)\<close>: the decimal with one fractional digit nearest to the exact value
  of \<open>x\<close> (ties to even), converted back to a float.
\<close>

definition py_round1 :: "rat \<Rightarrow> rat" where
  "py_round1 x = fl (of_int (rhe (x * 10)) / 10)"

text \<open>
  \<open>str\<close> of a float is its \<open>repr\<close>: the shortest decimal that converts back to the
  same float (of those, the nearest), printed in positional notation when the decimal
  point falls within \<open>- 4 < decpt \<le> 16\<close> and in exponent notation otherwise.
\<close>

definition try_digits :: "rat \<Rightarrow> nat \<Rightarrow> rat option" where
  "try_digits x p =
     (let scale = pow_int 10 (ilog 10 x - int p + 1);
          lo = \<lfloor>x / scale\<rfloor>;
          clo = of_int lo * scale;
          chi = of_int (lo + 1) * scale
      in if fl clo = x \<and> fl chi = x then (if x - clo \<le> chi - x then Some clo else Some chi)
         else if fl clo = x then Some clo
         else if fl chi = x then Some chi
         else None)"

fun shortest_decimal_from :: "rat \<Rightarrow> nat \<Rightarrow> nat \<Rightarrow> rat" where
  "shortest_decimal_from x p 0 = x"
| "shortest_decimal_from x p (Suc fuel) =
     (case try_digits x p of
        Some c \<Rightarrow> c
      | None \<Rightarrow> shortest_decimal_from x (Suc p) fuel)"

definition shortest_decimal :: "rat \<Rightarrow> rat" where
  "shortest_decimal x = shortest_decimal_from x 1 17"

fun strip_zeros :: "pystr \<Rightarrow> pystr" where
  "strip_zeros ds = rev (dropWhile (\<lambda>d. d = 48) (rev ds))"

definition repr_pos :: "rat \<Rightarrow> pystr" where
  "repr_pos x =
     (let c = shortest_decimal x;
          decpt = ilog 10 c + 1;
          ds = strip_zeros (digits_nat \<lfloor>c * pow_int 10 (17 - decpt)\<rfloor>);
          n = int (length ds)
      in if 16 < decpt \<or> decpt < - 3 then
           take 1 ds @ (if 1 < n then 46 # drop 1 ds else []) @ [101]
           @ (if decpt - 1 < 0 then [45] else [43])
           @ (if \<bar>decpt - 1\<bar> < 10 then [48] else []) @ str_int \<bar>decpt - 1\<bar>
         else if decpt \<le> 0 then
           str_lit ''0.'' @ replicate (nat (- decpt)) 48 @ ds
         else if n \<le> decpt then
           ds @ replicate (nat (decpt - n)) 48 @ str_lit ''.0''
         else take (nat decpt) ds @ 46 # drop (nat decpt) ds)"

definition py_float_repr :: "rat \<Rightarrow> pystr" where
  "py_float_repr x =
     (if x = 0 then str_lit ''0.0''
      else if x < 0 then 45 # repr_pos (- x)
      else repr_pos x)"

section \<open>The number-shortening helper\<close>

text \<open>
  \<^verbatim>\<open>
  def shorten_count(number):
      if number < 1000:
          return str(number)
      number = int(number)
      new_number = math.ceil(round(number / 100.0, 1)) * 100
      if new_number % 1000 == 0:
          return str(new_number)[0] + "k"
      if new_number < 1000:
          return str(number)
      else:
          return str(new_number / 1000.0) + "k"
  \<close>
  The argument is an integer. \<open>new_number\<close> is the intermediate value of that name.
\<close>

definition new_number :: "int \<Rightarrow> error + int" where
  "new_number number =
     on_ok (float_of_int number)
       (\<lambda>x. Inr (\<lceil>py_round1 (fl (x / 100))\<rceil> * 100))"

definition shorten_count :: "int \<Rightarrow> error + pystr" where
  "shorten_count number =
     (if number < 1000 then Inr (str_int number)
      else on_ok (new_number number) (\<lambda>nn.
        if nn mod 1000 = 0 then
          (case str_int nn of
             [] \<Rightarrow> Inl IndexError
           | c # _ \<Rightarrow> Inr (c # str_lit ''k''))
        else if nn < 1000 then Inr (str_int number)
        else on_ok (float_of_int nn)
               (\<lambda>y. Inr (py_float_repr (fl (y / 1000)) @ str_lit ''k''))))"

section \<open>The stats-string helper\<close>

text \<open>
  \<^verbatim>\<open>
  def get_stats(repo):
      stats = f"{repo['stargazers_count']} <star> " if repo["stargazers_count"] != "-1" else ""
      stats += f"{repo['forks_count']} <fork> " if repo["forks_count"] != "-1" else ""
      stats += f"{repo['watchers_count']} <eyes> " if repo["watchers_count"] != "-1" else ""
      return stats
  \<close>
  The three glyph literals are the code points the source file holds between the
  quotes. Each count is compared with the string \<open>"-1"\<close>; Python's \<open>!=\<close> between an
  \<open>int\<close> and a \<open>str\<close> is true.
\<close>

definition star_glyph :: pystr where
  "star_glyph = [0xE2, 0xAD]"

definition fork_glyph :: pystr where
  "fork_glyph = [0xE2, 0x17D, 0x2021]"

definition eyes_glyph :: pystr where
  "eyes_glyph = [0xF0, 0x178, 0x2018, 0x20AC]"

definition stat_token :: "pyval \<Rightarrow> pystr \<Rightarrow> pystr" where
  "stat_token v glyph = format_val v @ str_lit '' '' @ glyph @ str_lit '' ''"

definition stat_part :: "repo \<Rightarrow> string \<Rightarrow> pystr \<Rightarrow> error + pystr" where
  "stat_part r key glyph =
     on_ok (getitem r key)
       (\<lambda>v. if v \<noteq> PStr (str_lit ''-1'') then Inr (stat_token v glyph) else Inr [])"

definition get_stats :: "repo \<Rightarrow> error + pystr" where
  "get_stats r =
     on_ok (stat_part r ''stargazers_count'' star_glyph) (\<lambda>s1.
     on_ok (stat_part r ''forks_count'' fork_glyph) (\<lambda>s2.
     on_ok (stat_part r ''watchers_count'' eyes_glyph) (\<lambda>s3.
       Inr (s1 @ s2 @ s3))))"

section \<open>Strings handed to the toolkit\<close>

text \<open>
  \<open>str.strip()\<close> removes leading and trailing white space (the code points for which
  \<open>str.isspace\<close> holds); \<open>str.replace(old, new)\<close> replaces every occurrence of
  \<open>old\<close>, scanning from the left.
\<close>

definition is_space :: "int \<Rightarrow> bool" where
  "is_space c \<longleftrightarrow>
     (9 \<le> c \<and> c \<le> 13) \<or> (28 \<le> c \<and> c \<le> 32) \<or> c = 0x85 \<or> c = 0xA0 \<or> c = 0x1680
     \<or> (0x2000 \<le> c \<and> c \<le> 0x200A) \<or> c = 0x2028 \<or> c = 0x2029 \<or> c = 0x202F
     \<or> c = 0x205F \<or> c = 0x3000"

definition strip :: "pystr \<Rightarrow> pystr" where
  "strip s = rev (dropWhile is_space (rev (dropWhile is_space s)))"

function replace_str :: "pystr \<Rightarrow> pystr \<Rightarrow> pystr \<Rightarrow> pystr" where
  "replace_str old new s =
     (if old = [] then new @ concat (map (\<lambda>c. c # new) s)
      else if s = [] then []
      else if take (length old) s = old then new @ replace_str old new (drop (length old) s)
      else hd s # replace_str old new (tl s))"
  by pat_completeness auto
termination
  by (relation "measure (\<lambda>(old, new, s). length s)") auto

declare replace_str.simps [simp del]

text \<open>
  The expression shared by the three repository layouts:
  \<^verbatim>\<open>repo["date_range"].replace("stars", <star>)
     if "date_range" in repo.keys() and repo["date_range"] else ...\<close>
  \<open>None\<close> stands for the \<open>else\<close> branch; a true value that is not a string has no
  \<open>replace\<close> method.
\<close>

definition date_range_replaced :: "repo \<Rightarrow> error + pystr option" where
  "date_range_replaced r =
     (case r ''date_range'' of
        None \<Rightarrow> Inr None
      | Some v \<Rightarrow>
          if truthy v then
            (case v of
               PStr s \<Rightarrow> Inr (Some (replace_str (str_lit ''stars'') star_glyph s))
             | _ \<Rightarrow> Inl AttributeError)
          else Inr None)"

section \<open>Toolkit objects\<close>

text \<open>
  The layouts build objects of the rendering toolkit and hand them to its console. The
  objects are modelled by the arguments they are built from; how the toolkit draws them
  is outside this development. A text object is built from a string: the toolkit
  fails on any other value (\<open>RenderFailure\<close>). A table cell may also be \<open>None\<close>.
\<close>

record rich_text =
  text_plain :: pystr
  text_style :: pystr
  text_overflow :: "string option"
  text_spans :: "pystr list"

definition Text :: "pyval \<Rightarrow> pystr \<Rightarrow> string option \<Rightarrow> error + rich_text" where
  "Text v st ov =
     (case v of
        PStr s \<Rightarrow> Inr \<lparr>text_plain = s, text_style = st, text_overflow = ov, text_spans = []\<rparr>
      | _ \<Rightarrow> Inl RenderFailure)"

definition stylize :: "pystr \<Rightarrow> rich_text \<Rightarrow> rich_text" where
  "stylize st t = t\<lparr>text_spans := text_spans t @ [st]\<rparr>"

record grid =
  grid_padding :: "nat \<times> nat"
  grid_expand :: bool
  grid_row :: "rich_text list"
  grid_col1_no_wrap :: bool
  grid_col1_justify :: string

datatype renderable = Rule pystr | Str pystr | TextR rich_text | GridR grid

datatype printed = AlignCenter "renderable list" nat bool

record table =
  table_leading :: nat
  table_columns :: "(string \<times> string) list"
  table_cells :: "pyval list list"

datatype part = PartStr pystr | PartText rich_text

record panel =
  panel_content :: "part list"
  panel_expand :: bool

record columns =
  columns_panels :: "panel list"
  columns_width :: nat
  columns_expand :: bool

section \<open>The list layout\<close>

text \<open>
  \<open>render_repo\<close> yields, for one repository: a rule, the title grid (full name linked
  to the URL, stats string), the language grid (language or \<open>unknown language\<close>, date
  range), the description or the markup string \<open>[i green]no description\<close>, with empty
  strings between them. \<open>column\<close> centres a renderable in \<open>LAYOUT_WIDTH = 80\<close> columns
  without padding.
\<close>

definition LAYOUT_WIDTH :: nat where
  "LAYOUT_WIDTH = 80"

definition title_table :: "repo \<Rightarrow> error + grid" where
  "title_table r =
     on_ok (get_stats r) (\<lambda>stats.
     on_ok (getitem r ''full_name'') (\<lambda>full_name.
     on_ok (Text full_name [] (Some ''fold'')) (\<lambda>title.
     on_ok (getitem r ''html_url'') (\<lambda>url.
     on_ok (Text (PStr stats) (str_lit ''bold blue'') None) (\<lambda>stats_text.
       Inr \<lparr>grid_padding = (0, 1), grid_expand = True,
            grid_row = [stylize (str_lit ''yellow link '' @ format_val url) title, stats_text],
            grid_col1_no_wrap = True, grid_col1_justify = ''right''\<rparr>)))))"

definition language_col :: "repo \<Rightarrow> error + rich_text" where
  "language_col r =
     on_ok (getitem r ''language'') (\<lambda>language.
       if truthy language then Text language (str_lit ''bold cyan'') None
       else Text (PStr (str_lit ''unknown language'')) [] None)"

definition date_range_col :: "repo \<Rightarrow> error + rich_text" where
  "date_range_col r =
     on_ok (date_range_replaced r) (\<lambda>dr.
       case dr of
         Some d \<Rightarrow> Text (PStr d) (str_lit ''bold cyan'') None
       | None \<Rightarrow> Text (PStr []) [] None)"

definition lang_table :: "repo \<Rightarrow> error + grid" where
  "lang_table r =
     on_ok (language_col r) (\<lambda>lc.
     on_ok (date_range_col r) (\<lambda>dc.
       Inr \<lparr>grid_padding = (0, 1), grid_expand = True, grid_row = [lc, dc],
            grid_col1_no_wrap = True, grid_col1_justify = ''right''\<rparr>))"

definition description_block :: "repo \<Rightarrow> error + renderable" where
  "description_block r =
     on_ok (getitem r ''description'') (\<lambda>description.
       if truthy description then
         (case description of
            PStr s \<Rightarrow> on_ok (Text (PStr (strip s)) (str_lit ''green'') None) (\<lambda>t. Inr (TextR t))
          | _ \<Rightarrow> Inl AttributeError)
       else Inr (Str (str_lit ''[i green]no description'')))"

definition render_repo :: "repo \<Rightarrow> error + renderable list" where
  "render_repo r =
     on_ok (title_table r) (\<lambda>tt.
     on_ok (lang_table r) (\<lambda>lt.
     on_ok (description_block r) (\<lambda>d.
       Inr [Rule (str_lit ''bright_yellow''), Str [], GridR tt, Str [], GridR lt, Str [],
            d, Str []])))"

definition column :: "renderable list \<Rightarrow> printed" where
  "column rs = AlignCenter rs LAYOUT_WIDTH False"

text \<open>
  The console receives one centred block per repository and a closing rule. An error
  raised for a repository leaves the blocks already printed on the console.
\<close>

fun print_repos :: "repo list \<Rightarrow> printed list \<Rightarrow> printed list \<times> error option" where
  "print_repos [] console = (console @ [column [Rule (str_lit ''bright_yellow'')]], None)"
| "print_repos (r # rs) console =
     (case render_repo r of
        Inl e \<Rightarrow> (console, Some e)
      | Inr block \<Rightarrow> print_repos rs (console @ [column block]))"

definition list_layout :: "repo list \<Rightarrow> printed list \<times> error option" where
  "list_layout repos = print_repos repos []"

section \<open>The table layout\<close>

text \<open>
  The loop body of \<open>table_layout\<close> assigns to the record it renders:
  \<^verbatim>\<open>
  if not repo["language"]:
      repo["language"] = "None"
  if not repo["description"]:
      repo["description"] = "None"
  \<close>
  The records belong to the caller, so the body returns the record as it leaves it, also
  when it raises. The two assignments are \<open>default_field\<close>. The records of the list
  are taken to be distinct objects; since an assignment makes the field true, rendering
  an object a second time neither changes it nor its row.
\<close>

definition default_field :: "string \<Rightarrow> repo \<Rightarrow> repo \<times> (error + pyval)" where
  "default_field key r =
     (case r key of
        None \<Rightarrow> (r, Inl KeyError)
      | Some v \<Rightarrow>
          if \<not> truthy v then (r(key \<mapsto> PStr (str_lit ''None'')), Inr (PStr (str_lit ''None'')))
          else (r, Inr v))"

definition default_fields :: "repo \<Rightarrow> repo \<times> (error + pyval \<times> pyval)" where
  "default_fields r =
     (case default_field ''language'' r of
        (r1, Inl e) \<Rightarrow> (r1, Inl e)
      | (r1, Inr language) \<Rightarrow>
          (case default_field ''description'' r1 of
             (r2, Inl e) \<Rightarrow> (r2, Inl e)
           | (r2, Inr description) \<Rightarrow> (r2, Inr (language, description))))"

definition cell_ok :: "pyval \<Rightarrow> bool" where
  "cell_ok v = (case v of PInt _ \<Rightarrow> False | _ \<Rightarrow> True)"

definition table_stats :: "repo \<Rightarrow> error + pystr" where
  "table_stats r =
     on_ok (get_stats r) (\<lambda>stats.
     on_ok (date_range_replaced r) (\<lambda>dr.
       Inr (stats @ (case dr of Some d \<Rightarrow> str_lit [CHR 0x0A] @ d | None \<Rightarrow> []))))"

definition table_row :: "repo \<Rightarrow> repo \<times> (error + pyval list)" where
  "table_row r =
     (case table_stats r of
        Inl e \<Rightarrow> (r, Inl e)
      | Inr stats \<Rightarrow>
          (case default_fields r of
             (r', Inl e) \<Rightarrow> (r', Inl e)
           | (r', Inr (language, description)) \<Rightarrow>
               (r', on_ok (getitem r' ''name'') (\<lambda>name.
                      if cell_ok name \<and> cell_ok language \<and> cell_ok description
                      then Inr [name, language, description, PStr stats]
                      else Inl RenderFailure))))"

fun table_rows :: "repo list \<Rightarrow> repo list \<times> (error + pyval list list)" where
  "table_rows [] = ([], Inr [])"
| "table_rows (r # rs) =
     (case table_row r of
        (r', Inl e) \<Rightarrow> (r' # rs, Inl e)
      | (r', Inr row) \<Rightarrow>
          (case table_rows rs of
             (rs', Inl e) \<Rightarrow> (r' # rs', Inl e)
           | (rs', Inr rows) \<Rightarrow> (r' # rs', Inr (row # rows))))"

text \<open>
  \<open>table_layout\<close> returns the caller's records as the loop leaves them, and the table
  it prints.
\<close>

definition table_layout :: "repo list \<Rightarrow> repo list \<times> (error + table)" where
  "table_layout repos =
     (case table_rows repos of
        (repos', Inl e) \<Rightarrow> (repos', Inl e)
      | (repos', Inr rows) \<Rightarrow>
          (repos', Inr \<lparr>table_leading = 1,
                        table_columns = [(''Name'', ''bold cyan''), (''Language'', ''green''),
                                         (''Description'', ''blue''), (''Stats'', ''magenta'')],
                        table_cells = rows\<rparr>))"

section \<open>The grid layout\<close>

text \<open>
  Modelled from the spec: the ellipsis marker that the rendering toolkit (not part of
  the repository) appends to a truncated text, the character U+2026.
\<close>

definition ellipsis :: int where
  "ellipsis = 0x2026"

text \<open>
  Modelled from the spec: the display width of a string, which the rendering toolkit
  measures. The spec counts "display-width units, not raw character count, because
  East-Asian wide characters must count as two columns"; \<open>wide\<close> says which code points
  are East-Asian wide, every other character takes one column.
\<close>

definition cell_width :: "(int \<Rightarrow> bool) \<Rightarrow> int \<Rightarrow> nat" where
  "cell_width wide c = (if wide c then 2 else 1)"

definition cell_len :: "(int \<Rightarrow> bool) \<Rightarrow> pystr \<Rightarrow> nat" where
  "cell_len wide s = sum_list (map (cell_width wide) s)"

text \<open>
  Modelled from the spec: the longest prefix of a string that fits into \<open>n\<close> columns,
  the "width-aware, not naive character slicing" cut of the toolkit's truncation.
\<close>

fun take_cells :: "(int \<Rightarrow> bool) \<Rightarrow> nat \<Rightarrow> pystr \<Rightarrow> pystr" where
  "take_cells wide n [] = []"
| "take_cells wide n (c # cs) =
     (if cell_width wide c \<le> n then c # take_cells wide (n - cell_width wide c) cs else [])"

text \<open>
  Modelled from the spec: \<open>Text.truncate(max_width, overflow="ellipsis")\<close> of the
  rendering toolkit. The spec: "if the description's display length [...] exceeds 90
  units, truncate and append an ellipsis marker". The truncated text keeps the longest
  prefix that leaves one column for the marker.
\<close>

definition truncate :: "(int \<Rightarrow> bool) \<Rightarrow> nat \<Rightarrow> rich_text \<Rightarrow> rich_text" where
  "truncate wide max_width t =
     (if max_width < cell_len wide (text_plain t)
      then t\<lparr>text_plain := take_cells wide (max_width - 1) (text_plain t) @ [ellipsis]\<rparr>
      else t)"

text \<open>
  \<open>grid_layout\<close> builds one panel per repository, after the same two assignments to the
  record as in the table layout, and truncates the description to \<open>max_desc_len\<close>
  columns. The width table of the toolkit is the argument \<open>wide\<close>.
\<close>

definition max_desc_len :: nat where
  "max_desc_len = 90"

definition grid_date_range :: "repo \<Rightarrow> error + pystr" where
  "grid_date_range r =
     on_ok (date_range_replaced r) (\<lambda>dr.
       Inr (case dr of Some d \<Rightarrow> d @ str_lit [CHR 0x0A] | None \<Rightarrow> []))"

definition grid_description :: "(int \<Rightarrow> bool) \<Rightarrow> pyval \<Rightarrow> error + rich_text" where
  "grid_description wide v =
     on_ok (Text v (str_lit ''green'') None) (\<lambda>description.
       Inr (truncate wide max_desc_len description))"

definition grid_panel :: "(int \<Rightarrow> bool) \<Rightarrow> repo \<Rightarrow> repo \<times> (error + panel)" where
  "grid_panel wide r =
     (case get_stats r of
        Inl e \<Rightarrow> (r, Inl e)
      | Inr stats \<Rightarrow>
     (case grid_date_range r of
        Inl e \<Rightarrow> (r, Inl e)
      | Inr date_range_str \<Rightarrow>
     (case default_fields r of
        (r', Inl e) \<Rightarrow> (r', Inl e)
      | (r', Inr (language, description)) \<Rightarrow>
          (r', on_ok (getitem r' ''name'') (\<lambda>name.
               on_ok (Text name (str_lit ''bold yellow'') None) (\<lambda>name_text.
               on_ok (Text language (str_lit ''magenta'') None) (\<lambda>language_text.
               on_ok (grid_description wide description) (\<lambda>description_text.
               on_ok (Text (PStr stats) (str_lit ''blue'') None) (\<lambda>stats_text.
                 Inr \<lparr>panel_content =
                        [PartText name_text, PartStr (str_lit [CHR 0x0A]), PartText stats_text,
                         PartStr (str_lit [CHR 0x0A]), PartStr date_range_str,
                         PartText language_text, PartStr (str_lit [CHR 0x0A]),
                         PartText description_text],
                      panel_expand = True\<rparr>)))))))))"

fun grid_panels :: "(int \<Rightarrow> bool) \<Rightarrow> repo list \<Rightarrow> repo list \<times> (error + panel list)" where
  "grid_panels wide [] = ([], Inr [])"
| "grid_panels wide (r # rs) =
     (case grid_panel wide r of
        (r', Inl e) \<Rightarrow> (r' # rs, Inl e)
      | (r', Inr p) \<Rightarrow>
          (case grid_panels wide rs of
             (rs', Inl e) \<Rightarrow> (r' # rs', Inl e)
           | (rs', Inr ps) \<Rightarrow> (r' # rs', Inr (p # ps))))"

definition grid_layout :: "(int \<Rightarrow> bool) \<Rightarrow> repo list \<Rightarrow> repo list \<times> (error + columns)" where
  "grid_layout wide repos =
     (case grid_panels wide repos of
        (repos', Inl e) \<Rightarrow> (repos', Inl e)
      | (repos', Inr panels) \<Rightarrow>
          (repos', Inr \<lparr>columns_panels = panels, columns_width = 30, columns_expand = True\<rparr>))"

section \<open>Dates and durations\<close>

text \<open>
  A \<open>datetime.date\<close> is its proleptic Gregorian ordinal (day 1 is 0001-01-01, the last
  day \<open>MAXORDINAL\<close> is 9999-12-31); \<open>ymd2ord\<close> is the ordinal of a calendar date. A
  \<open>timedelta\<close> is its length in microseconds; its \<open>days\<close> field is the floor of the
  length in days and may not exceed 999999999 in magnitude.
  \<^item> \<open>date - date\<close> is a whole number of days;
  \<^item> \<open>timedelta / int\<close> rounds to the nearest microsecond, ties to even
    (\<open>divide_and_round\<close>), and raises \<open>ZeroDivisionError\<close> for 0;
  \<^item> \<open>int * timedelta\<close> is exact;
  \<^item> \<open>date + timedelta\<close> adds the \<open>days\<close> field only, and raises \<open>OverflowError\<close>
    outside 1 .. \<open>MAXORDINAL\<close>.
\<close>

type_synonym date = int

type_synonym timedelta = int

definition MAXORDINAL :: int where
  "MAXORDINAL = 3652059"

definition is_leap :: "int \<Rightarrow> bool" where
  "is_leap y \<longleftrightarrow> y mod 4 = 0 \<and> (y mod 100 \<noteq> 0 \<or> y mod 400 = 0)"

definition days_before_year :: "int \<Rightarrow> int" where
  "days_before_year y = (y - 1) * 365 + (y - 1) div 4 - (y - 1) div 100 + (y - 1) div 400"

definition days_before_month :: "int \<Rightarrow> int \<Rightarrow> int" where
  "days_before_month y m =
     [0, 31, 59, 90, 120, 151, 181, 212, 243, 273, 304, 334] ! nat (m - 1)
     + (if 2 < m \<and> is_leap y then 1 else 0)"

definition ymd2ord :: "int \<Rightarrow> int \<Rightarrow> int \<Rightarrow> date" where
  "ymd2ord y m d = days_before_year y + days_before_month y m + d"

definition us_per_day :: int where
  "us_per_day = 86400000000"

definition td_days :: "timedelta \<Rightarrow> int" where
  "td_days td = td div us_per_day"

definition timedelta_of :: "int \<Rightarrow> error + timedelta" where
  "timedelta_of us = (if 999999999 < \<bar>us div us_per_day\<bar> then Inl OverflowError else Inr us)"

definition date_sub :: "date \<Rightarrow> date \<Rightarrow> error + timedelta" where
  "date_sub d1 d2 = timedelta_of ((d1 - d2) * us_per_day)"

definition divide_and_round :: "int \<Rightarrow> int \<Rightarrow> int" where
  "divide_and_round a b =
     (let q = a div b; r = (a mod b) * 2;
          greater_than_half = (if 0 < b then b < r else r < b)
      in if greater_than_half \<or> (r = b \<and> q mod 2 = 1) then q + 1 else q)"

definition td_truediv :: "timedelta \<Rightarrow> int \<Rightarrow> error + timedelta" where
  "td_truediv td n =
     (if n = 0 then Inl ZeroDivisionError else timedelta_of (divide_and_round td n))"

definition td_mul :: "int \<Rightarrow> timedelta \<Rightarrow> error + timedelta" where
  "td_mul k td = timedelta_of (k * td)"

definition date_add :: "date \<Rightarrow> timedelta \<Rightarrow> error + date" where
  "date_add d td =
     (let ordinal = d + td_days td
      in if 0 < ordinal \<and> ordinal \<le> MAXORDINAL then Inr ordinal else Inl OverflowError)"

text \<open>
  Reading a Python list at an integer position: positions below zero are taken from the
  end of the list, and a position outside the list raises \<open>IndexError\<close>.
\<close>

definition list_index :: "'a list \<Rightarrow> int \<Rightarrow> error + 'a" where
  "list_index xs i =
     (if 0 \<le> i \<and> i < int (length xs) then Inr (xs ! nat i)
      else if i < 0 \<and> - int (length xs) \<le> i then Inr (xs ! nat (int (length xs) + i))
      else Inl IndexError)"

section \<open>The star-history aggregator\<close>

text \<open>
  \<^verbatim>\<open>
  def graph_layout(star_dates):
      min_date = star_dates[0]
      max_date = datetime.now().date()
      ...
      row_count, col_count = get_terminal_size()
      date_delta = (max_date - min_date) / col_count
      date_2 = min_date + 1 * (date_delta / 3)
      date_3 = min_date + 2 * (date_delta / 3)
      star_counts = [0]
      for i in range(1, col_count):
          lower_date = min_date + (i * date_delta)
          upper_date = min_date + ((i + 1) * date_delta)
          star_arr = [x for x in star_dates if (x >= lower_date and x < upper_date)]
          ...
          star_counts.append(len(star_arr) + star_counts[i - 1])
      plot([x for x in range(0, col_count)], star_counts, row_count, col_count)
  \<close>
  The current date and the terminal size are read from the environment: they are
  arguments here. The result is the call of the plotting primitive; the diagnostic
  \<open>print\<close> calls are left out.
\<close>

definition bucket_date :: "date \<Rightarrow> timedelta \<Rightarrow> int \<Rightarrow> error + date" where
  "bucket_date min_date date_delta k = on_ok (td_mul k date_delta) (date_add min_date)"

definition star_arr :: "date list \<Rightarrow> date \<Rightarrow> date \<Rightarrow> date list" where
  "star_arr star_dates lower_date upper_date =
     filter (\<lambda>x. lower_date \<le> x \<and> x < upper_date) star_dates"

function bucket_loop ::
  "date \<Rightarrow> timedelta \<Rightarrow> date list \<Rightarrow> int \<Rightarrow> int \<Rightarrow> int list \<Rightarrow> error + int list" where
  "bucket_loop min_date date_delta star_dates col_count i star_counts =
     (if i < col_count then
        (case bucket_date min_date date_delta i of
           Inl e \<Rightarrow> Inl e
         | Inr lower_date \<Rightarrow>
        (case bucket_date min_date date_delta (i + 1) of
           Inl e \<Rightarrow> Inl e
         | Inr upper_date \<Rightarrow>
        (case list_index star_counts (i - 1) of
           Inl e \<Rightarrow> Inl e
         | Inr prev \<Rightarrow>
             bucket_loop min_date date_delta star_dates col_count (i + 1)
               (star_counts
                @ [int (length (star_arr star_dates lower_date upper_date)) + prev]))))
      else Inr star_counts)"
  by pat_completeness auto
termination
  by (relation "measure (\<lambda>(min_date, date_delta, star_dates, col_count, i, star_counts).
                  nat (col_count - i))") auto

declare bucket_loop.simps [simp del]

datatype plot_call = Plot "int list" "int list" int int

definition graph_layout :: "date \<Rightarrow> int \<times> int \<Rightarrow> date list \<Rightarrow> error + plot_call" where
  "graph_layout today terminal_size star_dates =
     (case star_dates of
        [] \<Rightarrow> Inl IndexError
      | min_date # _ \<Rightarrow>
          (case terminal_size of (row_count, col_count) \<Rightarrow>
             on_ok (date_sub today min_date) (\<lambda>span.
             on_ok (td_truediv span col_count) (\<lambda>date_delta.
             on_ok (on_ok (on_ok (td_truediv date_delta 3) (td_mul 1)) (date_add min_date))
               (\<lambda>date_2.
             on_ok (on_ok (on_ok (td_truediv date_delta 3) (td_mul 2)) (date_add min_date))
               (\<lambda>date_3.
             on_ok (bucket_loop min_date date_delta star_dates col_count 1 [0])
               (\<lambda>star_counts.
                Inr (Plot [0..col_count - 1] star_counts row_count col_count))))))))"

text \<open>The cumulative-count series is the second argument of the plot call.\<close>

fun series :: "plot_call \<Rightarrow> int list" where
  "series (Plot xs ys rows cols) = ys"

section \<open>Concrete inputs\<close>

text \<open>
  The record of the end-to-end list rendering property: absent language and description
  are \<open>None\<close> values, the counts are integers.
\<close>

definition list_example :: repo where
  "list_example =
     [''full_name'' \<mapsto> PStr (str_lit ''x/y''), ''html_url'' \<mapsto> PStr (str_lit ''http://x''),
      ''stargazers_count'' \<mapsto> PInt 1500, ''forks_count'' \<mapsto> PInt (- 1),
      ''watchers_count'' \<mapsto> PInt (- 1), ''language'' \<mapsto> PNone, ''description'' \<mapsto> PNone]"

text \<open>
  The blocks \<open>list_layout\<close> prints for one repository without language, description
  and date range, given its name \<open>n\<close>, its URL \<open>u\<close> and the stats string \<open>st\<close>
  shown at the right of the title row.
\<close>

definition plain_block :: "pystr \<Rightarrow> pystr \<Rightarrow> pystr \<Rightarrow> printed list" where
  "plain_block n u st =
     [column
        [Rule (str_lit ''bright_yellow''), Str [],
         GridR \<lparr>grid_padding = (0, 1), grid_expand = True,
                grid_row =
                  [\<lparr>text_plain = n, text_style = [], text_overflow = Some ''fold'',
                    text_spans = [str_lit ''yellow link '' @ u]\<rparr>,
                   \<lparr>text_plain = st, text_style = str_lit ''bold blue'',
                    text_overflow = None, text_spans = []\<rparr>],
                grid_col1_no_wrap = True, grid_col1_justify = ''right''\<rparr>,
         Str [],
         GridR \<lparr>grid_padding = (0, 1), grid_expand = True,
                grid_row =
                  [\<lparr>text_plain = str_lit ''unknown language'', text_style = [],
                    text_overflow = None, text_spans = []\<rparr>,
                   \<lparr>text_plain = [], text_style = [], text_overflow = None,
                    text_spans = []\<rparr>],
                grid_col1_no_wrap = True, grid_col1_justify = ''right''\<rparr>,
         Str [], Str (str_lit ''[i green]no description''), Str []],
      column [Rule (str_lit ''bright_yellow'')]]"

text \<open>
  What the table and grid layouts may do to a record: \<open>defaulted r r'\<close> says that
  \<open>r'\<close> is \<open>r\<close> except that a language or description that was present with a false
  value (\<open>None\<close>, the empty string, 0) may have become the string \<open>None\<close>.
\<close>

definition defaulted :: "repo \<Rightarrow> repo \<Rightarrow> bool" where
  "defaulted r r' \<longleftrightarrow>
     (\<forall>k. r' k = r k
          \<or> ((k = ''language'' \<or> k = ''description'')
             \<and> (\<exists>v. r k = Some v \<and> \<not> truthy v)
             \<and> r' k = Some (PStr (str_lit ''None''))))"

text \<open>
  A record without language and with an empty description, its counts given as strings,
  and a record whose description is 46 copies of a wide character (U+4E2D).
\<close>

definition table_example :: repo where
  "table_example =
     [''name'' \<mapsto> PStr (str_lit ''y''), ''stargazers_count'' \<mapsto> PStr (str_lit ''5''),
      ''forks_count'' \<mapsto> PStr (str_lit ''-1''), ''watchers_count'' \<mapsto> PStr (str_lit ''-1''),
      ''language'' \<mapsto> PNone, ''description'' \<mapsto> PStr []]"

definition grid_example :: repo where
  "grid_example =
     [''name'' \<mapsto> PStr (str_lit ''y''), ''stargazers_count'' \<mapsto> PStr (str_lit ''-1''),
      ''forks_count'' \<mapsto> PStr (str_lit ''-1''), ''watchers_count'' \<mapsto> PStr (str_lit ''-1''),
      ''language'' \<mapsto> PStr (str_lit ''C''), ''description'' \<mapsto> PStr (replicate 46 0x4E2D)]"

section \<open>Evaluation lemmas\<close>

lemma digits_nat_small: "0 \<le> n \<Longrightarrow> n < 10 \<Longrightarrow> digits_nat n = [48 + n]"
  by (simp add: digits_nat.simps)

lemma str_int_1500: "str_int 1500 = str_lit ''1500''"
  by (simp add: str_int_def digits_nat.simps str_lit_def)

lemma str_int_minus_1: "str_int (- 1) = str_lit ''-1''"
  by (simp add: str_int_def digits_nat.simps str_lit_def)

lemma get_stats_parts:
  assumes "r ''stargazers_count'' = Some s" and "r ''forks_count'' = Some f"
    and "r ''watchers_count'' = Some w"
  shows "get_stats r =
    Inr ((if s = PStr (str_lit ''-1'') then [] else stat_token s star_glyph)
       @ (if f = PStr (str_lit ''-1'') then [] else stat_token f fork_glyph)
       @ (if w = PStr (str_lit ''-1'') then [] else stat_token w eyes_glyph))"
  using assms by (simp add: get_stats_def stat_part_def getitem_def on_ok_def)

lemma get_stats_list_example:
  "get_stats list_example =
     Inr (str_lit ''1500 '' @ star_glyph @ str_lit '' -1 '' @ fork_glyph @ str_lit '' -1 ''
          @ eyes_glyph @ str_lit '' '')"
  by (simp add: list_example_def get_stats_parts stat_token_def str_int_1500 str_int_minus_1
      str_lit_def)

lemma list_layout_plain_block:
  assumes "r ''full_name'' = Some (PStr n)" and "r ''html_url'' = Some (PStr u)"
    and "r ''language'' = Some PNone" and "r ''description'' = Some PNone"
    and "r ''date_range'' = None" and "get_stats r = Inr st"
  shows "list_layout [r] = (plain_block n u st, None)"
proof -
  have tt: "title_table r =
    Inr \<lparr>grid_padding = (0, 1), grid_expand = True,
         grid_row =
           [\<lparr>text_plain = n, text_style = [], text_overflow = Some ''fold'',
             text_spans = [str_lit ''yellow link '' @ u]\<rparr>,
            \<lparr>text_plain = st, text_style = str_lit ''bold blue'',
             text_overflow = None, text_spans = []\<rparr>],
         grid_col1_no_wrap = True, grid_col1_justify = ''right''\<rparr>"
    using assms by (simp add: title_table_def on_ok_def getitem_def Text_def stylize_def)
  have lt: "lang_table r =
    Inr \<lparr>grid_padding = (0, 1), grid_expand = True,
         grid_row =
           [\<lparr>text_plain = str_lit ''unknown language'', text_style = [],
             text_overflow = None, text_spans = []\<rparr>,
            \<lparr>text_plain = [], text_style = [], text_overflow = None, text_spans = []\<rparr>],
         grid_col1_no_wrap = True, grid_col1_justify = ''right''\<rparr>"
    using assms
    by (simp add: lang_table_def language_col_def date_range_col_def date_range_replaced_def
        on_ok_def getitem_def Text_def)
  have d: "description_block r = Inr (Str (str_lit ''[i green]no description''))"
    using assms by (simp add: description_block_def on_ok_def getitem_def)
  show ?thesis
    by (simp add: list_layout_def render_repo_def on_ok_def tt lt d plain_block_def)
qed

section \<open>The stats string\<close>

text \<open>
  C1, as stated, fails: the helper compares each count with the string \<open>"-1"\<close>, so the
  integer \<open>-1\<close> is not a sentinel for it. With all three counts the integer \<open>-1\<close> the
  result is not empty, and with stars 5, forks \<open>-1\<close>, watchers 2 it holds a fork-count
  token.
\<close>

theorem get_stats_integer_sentinel_shown:
  "get_stats [''stargazers_count'' \<mapsto> PInt (- 1), ''forks_count'' \<mapsto> PInt (- 1),
              ''watchers_count'' \<mapsto> PInt (- 1)]
     = Inr (str_lit ''-1 '' @ star_glyph @ str_lit '' -1 '' @ fork_glyph @ str_lit '' -1 ''
            @ eyes_glyph @ str_lit '' '')
   \<and> get_stats [''stargazers_count'' \<mapsto> PInt (- 1), ''forks_count'' \<mapsto> PInt (- 1),
                ''watchers_count'' \<mapsto> PInt (- 1)] \<noteq> Inr []
   \<and> get_stats [''stargazers_count'' \<mapsto> PInt 5, ''forks_count'' \<mapsto> PInt (- 1),
                ''watchers_count'' \<mapsto> PInt 2]
     = Inr (str_lit ''5 '' @ star_glyph @ str_lit '' -1 '' @ fork_glyph @ str_lit '' 2 ''
            @ eyes_glyph @ str_lit '' '')"
  by (simp add: get_stats_parts stat_token_def str_int_def digits_nat_small str_lit_def)

text \<open>
  C1 (amended): for every record that holds the three counts, the stats-string helper
  omits each count whose value is the string \<open>"-1"\<close> and writes every other count,
  the integer \<open>-1\<close> included, as its token (the value, a space, the glyph, a space), in
  the order stars, forks, watchers. With all three counts the string \<open>"-1"\<close> the result
  is empty; with stars 5, forks \<open>"-1"\<close>, watchers 2 it is the star-count token followed
  by the watcher-count token, with no fork-count token.
\<close>

theorem get_stats_omits_string_sentinel:
  assumes "r ''stargazers_count'' = Some s" and "r ''forks_count'' = Some f"
    and "r ''watchers_count'' = Some w"
  shows "get_stats r =
    Inr ((if s = PStr (str_lit ''-1'') then [] else stat_token s star_glyph)
       @ (if f = PStr (str_lit ''-1'') then [] else stat_token f fork_glyph)
       @ (if w = PStr (str_lit ''-1'') then [] else stat_token w eyes_glyph))"
  using assms by (rule get_stats_parts)

theorem get_stats_omits_string_sentinel_witness:
  "get_stats [''stargazers_count'' \<mapsto> PStr (str_lit ''-1''),
              ''forks_count'' \<mapsto> PStr (str_lit ''-1''),
              ''watchers_count'' \<mapsto> PStr (str_lit ''-1'')] = Inr []
   \<and> get_stats [''stargazers_count'' \<mapsto> PInt 5, ''forks_count'' \<mapsto> PStr (str_lit ''-1''),
                ''watchers_count'' \<mapsto> PInt 2]
     = Inr (stat_token (PInt 5) star_glyph @ stat_token (PInt 2) eyes_glyph)
   \<and> stat_token (PInt 5) star_glyph @ stat_token (PInt 2) eyes_glyph
     = str_lit ''5 '' @ star_glyph @ str_lit '' 2 '' @ eyes_glyph @ str_lit '' ''
   \<and> \<not> set fork_glyph \<subseteq> set (str_lit ''5 '' @ star_glyph @ str_lit '' 2 '' @ eyes_glyph
                                  @ str_lit '' '')"
  using
    get_stats_omits_string_sentinel [of
      "[''stargazers_count'' \<mapsto> PStr (str_lit ''-1''), ''forks_count'' \<mapsto> PStr (str_lit ''-1''),
        ''watchers_count'' \<mapsto> PStr (str_lit ''-1'')]"
      "PStr (str_lit ''-1'')" "PStr (str_lit ''-1'')" "PStr (str_lit ''-1'')"]
    get_stats_omits_string_sentinel [of
      "[''stargazers_count'' \<mapsto> PInt 5, ''forks_count'' \<mapsto> PStr (str_lit ''-1''),
        ''watchers_count'' \<mapsto> PInt 2]"
      "PInt 5" "PStr (str_lit ''-1'')" "PInt 2"]
  by (simp add: stat_token_def str_int_def digits_nat_small str_lit_def star_glyph_def
      fork_glyph_def eyes_glyph_def)

section \<open>The list layout, end to end\<close>

text \<open>
  C2, as stated, fails: the list layout does not shorten the star count. For the record
  of the claim the title row does not show \<open>1.5k\<close>; it shows the stats string of the
  record unchanged, \<open>1500\<close> and the two integer \<open>-1\<close> counts with their glyphs.
\<close>

theorem list_layout_count_not_shortened:
  "list_layout [list_example]
     \<noteq> (plain_block (str_lit ''x/y'') (str_lit ''http://x'')
          (str_lit ''1.5k '' @ star_glyph @ str_lit '' ''), None)
   \<and> list_layout [list_example]
     = (plain_block (str_lit ''x/y'') (str_lit ''http://x'')
          (str_lit ''1500 '' @ star_glyph @ str_lit '' -1 '' @ fork_glyph @ str_lit '' -1 ''
           @ eyes_glyph @ str_lit '' ''), None)"
proof -
  have "list_layout [list_example]
     = (plain_block (str_lit ''x/y'') (str_lit ''http://x'')
          (str_lit ''1500 '' @ star_glyph @ str_lit '' -1 '' @ fork_glyph @ str_lit '' -1 ''
           @ eyes_glyph @ str_lit '' ''), None)"
    by (rule list_layout_plain_block [OF _ _ _ _ _ get_stats_list_example])
       (simp_all add: list_example_def)
  then show ?thesis
    by (simp add: plain_block_def column_def str_lit_def)
qed

text \<open>
  C2 (amended): for a single record whose language and description are absent
  (\<open>None\<close>) and that has no date range, the list renderer produces a title row showing
  the full name, linked to the URL, with the stats string that the stats-string helper
  returns for the record, unshortened; a language row showing \<open>unknown language\<close>; and
  a description row showing the italic \<open>no description\<close> placeholder. For the record
  with full name \<open>x/y\<close>, URL \<open>http://x\<close> and the integer counts 1500, -1, -1 the
  title row shows \<open>x/y\<close> with the stats string made of \<open>1500\<close>, \<open>-1\<close> and \<open>-1\<close>, each
  followed by its glyph.
\<close>

theorem list_layout_single_record:
  assumes "r ''full_name'' = Some (PStr n)" and "r ''html_url'' = Some (PStr u)"
    and "r ''language'' = Some PNone" and "r ''description'' = Some PNone"
    and "r ''date_range'' = None" and "get_stats r = Inr st"
  shows "list_layout [r] = (plain_block n u st, None)"
  using assms by (rule list_layout_plain_block)

theorem list_layout_single_record_witness:
  "list_layout [list_example]
     = (plain_block (str_lit ''x/y'') (str_lit ''http://x'')
          (str_lit ''1500 '' @ star_glyph @ str_lit '' -1 '' @ fork_glyph @ str_lit '' -1 ''
           @ eyes_glyph @ str_lit '' ''), None)"
  by (rule list_layout_single_record [OF _ _ _ _ _ get_stats_list_example])
     (simp_all add: list_example_def)

section \<open>Records after the table and grid layouts\<close>

lemma defaulted_refl: "defaulted r r"
  by (simp add: defaulted_def)

lemma list_all2_defaulted_refl: "list_all2 defaulted rs rs"
  by (simp add: list_all2_refl defaulted_refl)

lemma truthy_None_str: "truthy (PStr (str_lit ''None''))"
  by (simp add: str_lit_def)

lemma default_fields_defaulted: "defaulted r (fst (default_fields r))"
  unfolding defaulted_def default_fields_def default_field_def
  by (auto split: option.splits if_splits simp: truthy_None_str)

lemma table_row_defaulted: "defaulted r (fst (table_row r))"
  using default_fields_defaulted [of r]
  by (auto simp: table_row_def defaulted_refl split: sum.splits prod.splits)

lemma table_rows_defaulted: "list_all2 defaulted repos (fst (table_rows repos))"
proof (induction repos)
  case Nil
  then show ?case by simp
next
  case (Cons r rs)
  have "defaulted r (fst (table_row r))" by (rule table_row_defaulted)
  with Cons show ?case
    by (auto simp: list_all2_defaulted_refl split: sum.splits prod.splits)
qed

lemma grid_panel_defaulted: "defaulted r (fst (grid_panel wide r))"
  using default_fields_defaulted [of r]
  by (auto simp: grid_panel_def defaulted_refl split: sum.splits prod.splits)

lemma grid_panels_defaulted: "list_all2 defaulted repos (fst (grid_panels wide repos))"
proof (induction repos)
  case Nil
  then show ?case by simp
next
  case (Cons r rs)
  have "defaulted r (fst (grid_panel wide r))" by (rule grid_panel_defaulted)
  with Cons show ?case
    by (auto simp: list_all2_defaulted_refl split: sum.splits prod.splits)
qed

lemma layouts_defaulted:
  "list_all2 defaulted repos (fst (table_layout repos))
   \<and> list_all2 defaulted repos (fst (grid_layout wide repos))"
  using table_rows_defaulted [of repos] grid_panels_defaulted [of repos wide]
  by (auto simp: table_layout_def grid_layout_def split: sum.splits prod.splits)

lemma get_stats_table_example: "get_stats table_example = Inr (str_lit ''5 '' @ star_glyph @ str_lit '' '')"
  by (simp add: table_example_def get_stats_parts stat_token_def str_lit_def)

lemma date_range_table_example: "date_range_replaced table_example = Inr None"
  by (simp add: date_range_replaced_def table_example_def)

lemma default_fields_table_example:
  "default_fields table_example =
     (table_example(''language'' \<mapsto> PStr (str_lit ''None''),
                    ''description'' \<mapsto> PStr (str_lit ''None'')),
      Inr (PStr (str_lit ''None''), PStr (str_lit ''None'')))"
  by (simp add: default_fields_def default_field_def table_example_def)

lemma name_table_example: "table_example ''name'' = Some (PStr (str_lit ''y''))"
  by (simp add: table_example_def)

lemma table_layout_example:
  "table_layout [table_example] =
     ([table_example(''language'' \<mapsto> PStr (str_lit ''None''),
                     ''description'' \<mapsto> PStr (str_lit ''None''))],
      Inr \<lparr>table_leading = 1,
           table_columns = [(''Name'', ''bold cyan''), (''Language'', ''green''),
                            (''Description'', ''blue''), (''Stats'', ''magenta'')],
           table_cells = [[PStr (str_lit ''y''), PStr (str_lit ''None''), PStr (str_lit ''None''),
                           PStr (str_lit ''5 '' @ star_glyph @ str_lit '' '')]]\<rparr>)"
  by (simp add: table_layout_def table_row_def table_stats_def get_stats_table_example
      date_range_table_example default_fields_table_example name_table_example
      getitem_def on_ok_def cell_ok_def)

lemma grid_layout_example:
  "fst (grid_layout wide [table_example]) =
     [table_example(''language'' \<mapsto> PStr (str_lit ''None''),
                     ''description'' \<mapsto> PStr (str_lit ''None''))]"
  by (simp add: grid_layout_def grid_panel_def grid_date_range_def get_stats_table_example
      date_range_table_example default_fields_table_example on_ok_def
      split: sum.splits prod.splits)

lemma example_changed:
  "table_example(''language'' \<mapsto> PStr (str_lit ''None''), ''description'' \<mapsto> PStr (str_lit ''None''))
     \<noteq> table_example"
proof
  assume "table_example(''language'' \<mapsto> PStr (str_lit ''None''), ''description'' \<mapsto> PStr (str_lit ''None''))
     = table_example"
  then have "(table_example(''language'' \<mapsto> PStr (str_lit ''None''), ''description'' \<mapsto> PStr (str_lit ''None''))) ''language''
     = table_example ''language''" by simp
  then show False by (simp add: table_example_def)
qed

text \<open>
  C6, as stated, fails: both layouts assign to the record they render. After the table
  layout, and after the grid layout, the caller's record that had no language and an
  empty description holds the string \<open>None\<close> in both fields.
\<close>

theorem table_grid_layout_change_record:
  "fst (table_layout [table_example]) \<noteq> [table_example]
   \<and> fst (grid_layout (\<lambda>c. False) [table_example]) \<noteq> [table_example]
   \<and> table_example ''language'' = Some PNone
   \<and> hd (fst (table_layout [table_example])) ''language'' = Some (PStr (str_lit ''None''))
   \<and> hd (fst (grid_layout (\<lambda>c. False) [table_example])) ''description''
       = Some (PStr (str_lit ''None''))"
  by (simp add: table_layout_example grid_layout_example example_changed)
     (simp add: table_example_def)

text \<open>
  C6 (amended): the table renderer and the grid renderer return the caller's records in
  the same order and number, and change a record in at most two places: a language or
  a description that is present with a false value (\<open>None\<close> or empty) is overwritten,
  in the caller's record, with the string \<open>None\<close>. Every other field, and a language or
  description that holds a non-empty value, is left as it was; this holds also when the
  layout raises.
\<close>

theorem table_grid_layout_only_default:
  "list_all2 defaulted repos (fst (table_layout repos))
   \<and> list_all2 defaulted repos (fst (grid_layout wide repos))"
  by (rule layouts_defaulted)

theorem table_grid_layout_only_default_witness:
  "list_all2 defaulted [table_example] (fst (table_layout [table_example]))
   \<and> list_all2 defaulted [table_example] (fst (grid_layout (\<lambda>c. False) [table_example]))
   \<and> fst (table_layout [table_example])
       = [table_example(''language'' \<mapsto> PStr (str_lit ''None''),
                        ''description'' \<mapsto> PStr (str_lit ''None''))]
   \<and> hd (fst (table_layout [table_example])) ''name'' = table_example ''name''"
  using table_grid_layout_only_default [of "[table_example]" "\<lambda>c. False"]
  by (simp add: table_layout_example)

section \<open>Truncation of the description in the grid layout\<close>

lemma cell_len_take_cells: "cell_len wide (take_cells wide n s) \<le> n"
proof (induction s arbitrary: n)
  case Nil
  then show ?case by (simp add: cell_len_def)
next
  case (Cons c cs)
  show ?case
  proof (cases "cell_width wide c \<le> n")
    case True
    have "cell_len wide (take_cells wide (n - cell_width wide c) cs) \<le> n - cell_width wide c"
      by (rule Cons.IH)
    with True show ?thesis by (simp add: cell_len_def)
  next
    case False
    then show ?thesis by (simp add: cell_len_def)
  qed
qed

lemma take_cells_prefix: "take_cells wide n s = take (length (take_cells wide n s)) s"
  by (induction s arbitrary: n) auto

lemma cell_len_count: "cell_len wide s = length s + length (filter wide s)"
  by (induction s) (auto simp: cell_len_def cell_width_def)

lemma cell_len_append: "cell_len wide (s @ t) = cell_len wide s + cell_len wide t"
  by (simp add: cell_len_def)

lemma grid_panel_strings:
  assumes "get_stats r = Inr st" and "grid_date_range r = Inr dr"
    and "r ''name'' = Some (PStr n)"
    and "r ''language'' = Some (PStr l)" and "l \<noteq> []"
    and "r ''description'' = Some (PStr d)" and "d \<noteq> []"
  shows "grid_panel wide r =
    (r, Inr \<lparr>panel_content =
              [PartText \<lparr>text_plain = n, text_style = str_lit ''bold yellow'',
                         text_overflow = None, text_spans = []\<rparr>,
               PartStr (str_lit [CHR 0x0A]),
               PartText \<lparr>text_plain = st, text_style = str_lit ''blue'',
                         text_overflow = None, text_spans = []\<rparr>,
               PartStr (str_lit [CHR 0x0A]), PartStr dr,
               PartText \<lparr>text_plain = l, text_style = str_lit ''magenta'',
                         text_overflow = None, text_spans = []\<rparr>,
               PartStr (str_lit [CHR 0x0A]),
               PartText \<lparr>text_plain =
                           (if 90 < cell_len wide d
                            then take_cells wide 89 d @ [ellipsis] else d),
                         text_style = str_lit ''green'',
                         text_overflow = None, text_spans = []\<rparr>],
            panel_expand = True\<rparr>)"
proof -
  have df: "default_fields r = (r, Inr (PStr l, PStr d))"
    using assms by (simp add: default_fields_def default_field_def)
  have gd: "grid_description wide (PStr d) =
    Inr \<lparr>text_plain = (if 90 < cell_len wide d then take_cells wide 89 d @ [ellipsis] else d),
         text_style = str_lit ''green'', text_overflow = None, text_spans = []\<rparr>"
    by (simp add: grid_description_def Text_def on_ok_def truncate_def max_desc_len_def)
  show ?thesis
    using assms(1-3)
    by (simp add: grid_panel_def df gd getitem_def on_ok_def Text_def)
qed


lemma get_stats_grid_example: "get_stats grid_example = Inr []"
  by (simp add: grid_example_def get_stats_parts)

lemma grid_date_range_grid_example: "grid_date_range grid_example = Inr []"
  by (simp add: grid_date_range_def date_range_replaced_def on_ok_def grid_example_def)

lemma cell_len_replicate_wide: "wide c \<Longrightarrow> cell_len wide (replicate n c) = 2 * n"
  by (induction n) (simp_all add: cell_len_def cell_width_def)

text \<open>
  C9: in a panel of the grid renderer, built for a record with string name, language and
  description, the description is the last part. A description whose display width is
  at most 90 (so also exactly 90) is rendered as it is. A description whose display width
  is 91 or more is rendered as a prefix of itself followed by the ellipsis marker, of
  display width at most 90 (the marker being a narrow character). The display width
  counts every East-Asian wide character twice: it is the number of characters plus the
  number of wide characters.
\<close>

theorem grid_description_truncated_by_width:
  assumes "get_stats r = Inr st" and "grid_date_range r = Inr dr"
    and "r ''name'' = Some (PStr n)"
    and "r ''language'' = Some (PStr l)" and "l \<noteq> []"
    and "r ''description'' = Some (PStr d)" and "d \<noteq> []"
  shows "\<exists>p t. grid_panel wide r = (r, Inr p) \<and> last (panel_content p) = PartText t
    \<and> (cell_len wide d \<le> 90 \<longrightarrow> text_plain t = d)
    \<and> (90 < cell_len wide d \<longrightarrow>
         (\<exists>k. text_plain t = take k d @ [ellipsis])
         \<and> (\<not> wide ellipsis \<longrightarrow> cell_len wide (text_plain t) \<le> 90))
    \<and> cell_len wide d = length d + length (filter wide d)"
proof -
  let ?t = "\<lparr>text_plain = (if 90 < cell_len wide d then take_cells wide 89 d @ [ellipsis] else d),
         text_style = str_lit ''green'', text_overflow = None, text_spans = []\<rparr>"
  have tr: "90 < cell_len wide d \<Longrightarrow> \<exists>k. text_plain ?t = take k d @ [ellipsis]"
    using take_cells_prefix [of wide 89 d] by auto
  have w: "90 < cell_len wide d \<Longrightarrow> \<not> wide ellipsis \<Longrightarrow> cell_len wide (text_plain ?t) \<le> 90"
    using cell_len_take_cells [of wide 89 d]
    by (simp add: cell_len_append) (simp add: cell_len_def cell_width_def)
  have un: "cell_len wide d \<le> 90 \<Longrightarrow> text_plain ?t = d"
    by simp
  show ?thesis
    using grid_panel_strings [OF assms, of wide] tr w un cell_len_count [of wide d]
    by auto
qed

theorem grid_description_truncated_by_width_witness:
  "get_stats grid_example = Inr [] \<and> grid_date_range grid_example = Inr []
   \<and> grid_example ''name'' = Some (PStr (str_lit ''y''))
   \<and> grid_example ''language'' = Some (PStr (str_lit ''C'')) \<and> str_lit ''C'' \<noteq> []
   \<and> grid_example ''description'' = Some (PStr (replicate 46 0x4E2D))
   \<and> replicate 46 (0x4E2D :: int) \<noteq> []
   \<and> length (replicate 46 (0x4E2D :: int)) = 46
   \<and> cell_len (\<lambda>c. c = 0x4E2D) (replicate 46 0x4E2D) = 92
   \<and> (\<exists>p t. grid_panel (\<lambda>c. c = 0x4E2D) grid_example = (grid_example, Inr p)
        \<and> last (panel_content p) = PartText t
        \<and> (\<exists>k. text_plain t = take k (replicate 46 0x4E2D) @ [ellipsis])
        \<and> cell_len (\<lambda>c. c = 0x4E2D) (text_plain t) \<le> 90)"
proof -
  have h1: "get_stats grid_example = Inr []" by (rule get_stats_grid_example)
  have h2: "grid_date_range grid_example = Inr []" by (rule grid_date_range_grid_example)
  have h3: "grid_example ''name'' = Some (PStr (str_lit ''y''))"
    by (simp add: grid_example_def)
  have h4: "grid_example ''language'' = Some (PStr (str_lit ''C''))"
    by (simp add: grid_example_def)
  have h5: "str_lit ''C'' \<noteq> []" by (simp add: str_lit_def)
  have h6: "grid_example ''description'' = Some (PStr (replicate 46 0x4E2D))"
    by (simp add: grid_example_def)
  have h7: "replicate 46 (0x4E2D :: int) \<noteq> []" by simp
  have w: "cell_len (\<lambda>c. c = 0x4E2D) (replicate 46 0x4E2D) = 92"
    by (simp add: cell_len_replicate_wide)
  have e: "\<not> (ellipsis = 0x4E2D)" by (simp add: ellipsis_def)
  show ?thesis
    using grid_description_truncated_by_width
      [OF h1 h2 h3 h4 h5 h6 h7, of "\<lambda>c. c = 0x4E2D"] h1 h2 h3 h4 h5 h6 w e
    by auto
qed

section \<open>Values of the number-shortening helper\<close>

text \<open>
  The float operations are evaluated one at a time: \<open>12345 / 100.0\<close> is the float
  just above 123.45, which rounds to 123.5; its ceiling is 124, and \<open>12400 / 1000.0\<close>
  prints as \<open>12.4\<close>.
\<close>

lemma floor_numeral_quotient [simp]:
  "\<lfloor>numeral a / numeral b :: rat\<rfloor> = numeral a div numeral b"
  using floor_divide_of_int_eq [of "numeral a" "numeral b", where ?'a = rat] by simp

lemma ceiling_numeral_quotient [simp]:
  "\<lceil>numeral a / numeral b :: rat\<rceil> = - (- numeral a div numeral b)"
  using floor_divide_of_int_eq [of "- numeral a" "numeral b", where ?'a = rat]
  by (simp add: ceiling_def)

lemmas fl_eval = fl_def ilog_def rhe_def pow_int_def Let_def ilog_pos.simps

lemma digits_nat_nonempty: "digits_nat n \<noteq> []"
  by (subst digits_nat.simps) simp

lemma str_int_nonempty: "str_int n \<noteq> []"
  by (simp add: str_int_def digits_nat_nonempty)

lemma shorten_count_thousands:
  assumes "1000 \<le> number" and "new_number number = Inr nn" and "nn mod 1000 = 0"
  shows "shorten_count number = Inr (take 1 (str_int nn) @ str_lit ''k'')"
proof -
  obtain c cs where "str_int nn = c # cs"
    using str_int_nonempty [of nn] by (cases "str_int nn") auto
  with assms show ?thesis
    by (simp add: shorten_count_def on_ok_def)
qed

lemma float_of_int_10000: "float_of_int 10000 = Inr 10000"
  by (simp add: float_of_int_def fl_eval)

lemma float_of_int_1000: "float_of_int 1000 = Inr 1000"
  by (simp add: float_of_int_def fl_eval)

lemma fl_100: "fl 100 = 100"
  by (simp add: fl_eval)

lemma fl_10: "fl 10 = 10"
  by (simp add: fl_eval)

lemma new_number_10000: "new_number 10000 = Inr 10000"
  by (simp add: new_number_def float_of_int_10000 on_ok_def py_round1_def fl_100 rhe_def)

lemma new_number_1000: "new_number 1000 = Inr 1000"
  by (simp add: new_number_def float_of_int_1000 on_ok_def py_round1_def fl_10 rhe_def)

lemma str_int_10000: "str_int 10000 = str_lit ''10000''"
  by (simp add: str_int_def digits_nat.simps str_lit_def)

lemma str_int_1000: "str_int 1000 = str_lit ''1000''"
  by (simp add: str_int_def digits_nat.simps str_lit_def)

lemma float_of_int_12345: "float_of_int 12345 = Inr 12345"
  by (simp add: float_of_int_def fl_eval)

lemma fl_12345_100: "fl (2469 / 20) = 8687021468732621 / 70368744177664"
  by (simp add: fl_eval)

lemma fl_247_2: "fl (247 / 2) = 247 / 2"
  by (simp add: fl_eval)

lemma py_round1_12345: "py_round1 (8687021468732621 / 70368744177664) = 247 / 2"
  by (simp add: py_round1_def rhe_def fl_247_2)

lemma new_number_12345: "new_number 12345 = Inr 12400"
  by (simp add: new_number_def float_of_int_12345 on_ok_def fl_12345_100 py_round1_12345)

lemma float_of_int_12400: "float_of_int 12400 = Inr 12400"
  by (simp add: float_of_int_def fl_eval)

lemma fl_62_5: "fl (62 / 5) = 6980579422424269 / 562949953421312"
  by (simp add: fl_eval)

lemma fl_20: "fl 20 = 20" by (simp add: fl_eval)
lemma fl_12: "fl 12 = 12" by (simp add: fl_eval)
lemma fl_13: "fl 13 = 13" by (simp add: fl_eval)
lemma fl_25_2: "fl (25 / 2) = 25 / 2" by (simp add: fl_eval)

lemma ilog_10_x: "ilog 10 (6980579422424269 / 562949953421312) = 1"
  by (simp add: ilog_def ilog_pos.simps)

lemma try_digits_1: "try_digits (6980579422424269 / 562949953421312) (Suc 0) = None"
  by (simp add: try_digits_def ilog_10_x pow_int_def fl_10 fl_20)

lemma try_digits_2: "try_digits (6980579422424269 / 562949953421312) (Suc (Suc 0)) = None"
  by (simp add: try_digits_def ilog_10_x pow_int_def fl_12 fl_13)

lemma try_digits_3: "try_digits (6980579422424269 / 562949953421312) (Suc (Suc (Suc 0))) = Some (62 / 5)"
  by (simp add: try_digits_def ilog_10_x pow_int_def fl_62_5 fl_25_2)

lemma shortest_decimal_from_numeral:
  "shortest_decimal_from x p (numeral k) =
     (case try_digits x p of
        Some c \<Rightarrow> c
      | None \<Rightarrow> shortest_decimal_from x (Suc p) (pred_numeral k))"
  by (simp add: numeral_eq_Suc)

lemma shortest_decimal_x: "shortest_decimal (6980579422424269 / 562949953421312) = 62 / 5"
  by (simp add: shortest_decimal_def shortest_decimal_from_numeral try_digits_1 try_digits_2
      try_digits_3)

lemma ilog_10_62_5: "ilog 10 (62 / 5) = 1"
  by (simp add: ilog_def ilog_pos.simps)

lemma repr_x: "py_float_repr (6980579422424269 / 562949953421312) = str_lit ''12.4''"
  by (simp add: py_float_repr_def repr_pos_def shortest_decimal_x ilog_10_62_5 pow_int_def
      digits_nat.simps str_lit_def)

lemma shorten_count_12345_value: "shorten_count 12345 = Inr (str_lit ''12.4k'')"
  by (simp add: shorten_count_def new_number_12345 on_ok_def float_of_int_12400 fl_62_5 repr_x
      str_lit_def)

lemma shorten_count_10000_value: "shorten_count 10000 = Inr (str_lit ''1k'')"
  using shorten_count_thousands [of 10000 10000]
  by (simp add: new_number_10000 str_int_10000 str_lit_def)

lemma shorten_count_1000_value: "shorten_count 1000 = Inr (str_lit ''1k'')"
  using shorten_count_thousands [of 1000 1000]
  by (simp add: new_number_1000 str_int_1000 str_lit_def)

lemma str_int_12345: "str_int 12345 = str_lit ''12345''"
  by (simp add: str_int_def digits_nat.simps str_lit_def)

text \<open>
  C7, as stated, fails: the helper rounds the hundreds up (\<open>math.ceil\<close>), so 12345
  gives \<open>12.4k\<close>, not \<open>12.3k\<close>, and \<open>12.4k\<close> has as many characters as \<open>12345\<close>.
\<close>

theorem shorten_count_12345_not_12_3k:
  "shorten_count 12345 \<noteq> Inr (str_lit ''12.3k'')
   \<and> shorten_count 12345 = Inr (str_lit ''12.4k'')
   \<and> \<not> length (str_lit ''12.4k'') < length (str_int 12345)"
  by (simp add: shorten_count_12345_value str_int_12345) (simp add: str_lit_def)

text \<open>
  C7 (amended): the number-shortening helper applied to 12345 returns \<open>12.4k\<close>, a
  string ending in \<open>k\<close> that has five characters, as many as the string \<open>12345\<close>.
\<close>

theorem shorten_count_12345:
  "shorten_count 12345 = Inr (str_lit ''12.4k'')
   \<and> last (str_lit ''12.4k'') = of_char CHR ''k''
   \<and> length (str_lit ''12.4k'') = 5
   \<and> length (str_int 12345) = 5"
  by (simp add: shorten_count_12345_value str_int_12345) (simp add: str_lit_def)

text \<open>
  C10: for every input of 1000 or more whose \<open>new_number\<close> (the input divided by 100,
  rounded to one decimal, rounded up to a whole number and multiplied by 100) is an
  exact multiple of 1000, the helper returns the first decimal digit of \<open>new_number\<close>
  followed by \<open>k\<close>, whatever the magnitude. In particular 10000, whose \<open>new_number\<close> is
  10000, gives \<open>1k\<close>, the same string as 1000.
\<close>

theorem shorten_count_multiple_of_1000:
  "(1000 \<le> number \<and> new_number number = Inr nn \<and> nn mod 1000 = 0
      \<longrightarrow> shorten_count number = Inr (take 1 (str_int nn) @ str_lit ''k''))
   \<and> new_number 10000 = Inr 10000
   \<and> shorten_count 10000 = Inr (str_lit ''1k'')
   \<and> shorten_count 1000 = Inr (str_lit ''1k'')"
  using shorten_count_thousands [of number nn]
  by (simp add: new_number_10000 shorten_count_10000_value shorten_count_1000_value)

theorem shorten_count_multiple_of_1000_witness:
  "(1000::int) \<le> 10000 \<and> new_number 10000 = Inr 10000 \<and> (10000::int) mod 1000 = 0
   \<and> shorten_count 10000 = Inr (take 1 (str_int 10000) @ str_lit ''k'')
   \<and> take 1 (str_int 10000) @ str_lit ''k'' = str_lit ''1k''"
  using shorten_count_multiple_of_1000 [of 10000 10000]
  by (simp add: str_int_10000 str_lit_def)

section \<open>The cumulative series\<close>

lemma dar_cases:
  assumes "0 < b"
  shows "divide_and_round a b = a div b \<and> 2 * (a mod b) \<le> b
       \<or> divide_and_round a b = a div b + 1 \<and> b \<le> 2 * (a mod b)"
  using assms by (auto simp: divide_and_round_def Let_def)

lemma dar_nonneg: "0 \<le> a \<Longrightarrow> 0 < b \<Longrightarrow> 0 \<le> divide_and_round a b"
  using dar_cases [of b a] pos_imp_zdiv_nonneg_iff [of b a] by auto

lemma dar_upper:
  assumes "0 < b"
  shows "2 * (b * divide_and_round a b) \<le> 2 * a + b"
proof -
  define q where "q = a div b"
  define r where "r = a mod b"
  have eq: "b * q = a - r"
    by (simp add: q_def r_def minus_mod_eq_mult_div)
  have r0: "0 \<le> r" using assms by (simp add: r_def)
  from dar_cases [OF assms, of a]
  have "divide_and_round a b = q \<and> 2 * r \<le> b \<or> divide_and_round a b = q + 1 \<and> b \<le> 2 * r"
    by (simp add: q_def r_def)
  then show ?thesis
  proof
    assume h: "divide_and_round a b = q \<and> 2 * r \<le> b"
    then have "2 * (b * divide_and_round a b) = 2 * (a - r)" using eq by simp
    also have "\<dots> \<le> 2 * a + b" using r0 assms by arith
    finally show ?thesis .
  next
    assume h: "divide_and_round a b = q + 1 \<and> b \<le> 2 * r"
    then have "2 * (b * divide_and_round a b) = 2 * (b * q) + 2 * b"
      by (simp add: algebra_simps)
    also have "\<dots> = 2 * (a - r) + 2 * b" using eq by simp
    also have "\<dots> \<le> 2 * a + b" using h by arith
    finally show ?thesis .
  qed
qed

lemma dar_le_self:
  assumes "0 \<le> a" and "0 < b"
  shows "divide_and_round a b \<le> a"
proof -
  define q where "q = a div b"
  define r where "r = a mod b"
  have eq: "b * q = a - r"
    by (simp add: q_def r_def minus_mod_eq_mult_div)
  have r0: "0 \<le> r" using assms by (simp add: r_def)
  have q0: "0 \<le> q" using assms by (simp add: q_def pos_imp_zdiv_nonneg_iff)
  have qb: "q \<le> b * q" using q0 assms by (simp add: mult_le_cancel_right1)
  from dar_cases [OF assms(2), of a]
  have "divide_and_round a b = q \<and> 2 * r \<le> b \<or> divide_and_round a b = q + 1 \<and> b \<le> 2 * r"
    by (simp add: q_def r_def)
  then show ?thesis
  proof
    assume h: "divide_and_round a b = q \<and> 2 * r \<le> b"
    then show ?thesis using qb eq r0 by linarith
  next
    assume h: "divide_and_round a b = q + 1 \<and> b \<le> 2 * r"
    then have "1 \<le> r" using assms(2) by linarith
    with h show ?thesis using qb eq by linarith
  qed
qed

lemma list_index_last:
  assumes "int (length acc) = i" and "1 \<le> i"
  shows "list_index acc (i - 1) = Inr (last acc)"
proof -
  have ne: "acc \<noteq> []" using assms by auto
  have "nat (i - 1) = length acc - 1" using assms by auto
  then show ?thesis
    using assms ne by (simp add: list_index_def last_conv_nth)
qed

lemma sorted_le_last: "sorted (acc :: int list) \<Longrightarrow> y \<in> set acc \<Longrightarrow> y \<le> last acc"
  by (induction acc) auto

lemma sorted_snoc:
  "sorted acc \<Longrightarrow> acc \<noteq> [] \<Longrightarrow> last acc \<le> (x::int) \<Longrightarrow> sorted (acc @ [x])"
  using sorted_le_last [of acc] by (fastforce simp: sorted_append)

lemma bucket_loop_step:
  assumes "i < c" and "int (length acc) = i" and "1 \<le> i"
    and "bucket_date m dl i = Inr lo" and "bucket_date m dl (i + 1) = Inr up"
  shows "bucket_loop m dl sd c i acc =
         bucket_loop m dl sd c (i + 1) (acc @ [int (length (star_arr sd lo up)) + last acc])"
  using assms list_index_last [of acc i]
  by (subst bucket_loop.simps) simp

lemma bucket_loop_done: "\<not> i < c \<Longrightarrow> bucket_loop m dl sd c i acc = Inr acc"
  by (subst bucket_loop.simps) simp

lemma bucket_loop_error:
  assumes "i < c" and "bucket_date m dl i = Inl e \<or> bucket_date m dl (i + 1) = Inl e"
  shows "\<exists>e'. bucket_loop m dl sd c i acc = Inl e'"
  using assms by (subst bucket_loop.simps) (auto split: sum.splits)

lemma bucket_loop_length:
  "bucket_loop m dl sd c i acc = Inr s \<Longrightarrow> int (length acc) = i \<Longrightarrow> 1 \<le> i \<Longrightarrow> i \<le> c
   \<Longrightarrow> int (length s) = c"
proof (induction m dl sd c i acc rule: bucket_loop.induct)
  case (1 m dl sd c i acc)
  show ?case
  proof (cases "i < c")
    case False
    with "1.prems" show ?thesis by (simp add: bucket_loop_done)
  next
    case True
    from "1.prems"(1) True obtain lo up
      where lo: "bucket_date m dl i = Inr lo" and up: "bucket_date m dl (i + 1) = Inr up"
      by (subst (asm) bucket_loop.simps) (auto split: sum.splits)
    have li: "list_index acc (i - 1) = Inr (last acc)"
      using "1.prems" by (simp add: list_index_last)
    have step: "bucket_loop m dl sd c (i + 1)
        (acc @ [int (length (star_arr sd lo up)) + last acc]) = Inr s"
      using "1.prems"(1) bucket_loop_step [OF True "1.prems"(2,3) lo up, of sd] by simp
    show ?thesis
      using "1.IH" [OF True lo up li step] "1.prems" True by simp
  qed
qed

lemma bucket_loop_sorted:
  "bucket_loop m dl sd c i acc = Inr s \<Longrightarrow> int (length acc) = i \<Longrightarrow> 1 \<le> i \<Longrightarrow> sorted acc
   \<Longrightarrow> sorted s"
proof (induction m dl sd c i acc rule: bucket_loop.induct)
  case (1 m dl sd c i acc)
  show ?case
  proof (cases "i < c")
    case False
    with "1.prems" show ?thesis by (simp add: bucket_loop_done)
  next
    case True
    from "1.prems"(1) True obtain lo up
      where lo: "bucket_date m dl i = Inr lo" and up: "bucket_date m dl (i + 1) = Inr up"
      by (subst (asm) bucket_loop.simps) (auto split: sum.splits)
    have li: "list_index acc (i - 1) = Inr (last acc)"
      using "1.prems" by (simp add: list_index_last)
    have step: "bucket_loop m dl sd c (i + 1)
        (acc @ [int (length (star_arr sd lo up)) + last acc]) = Inr s"
      using "1.prems"(1) bucket_loop_step [OF True "1.prems"(2,3) lo up, of sd] by simp
    have ne: "acc \<noteq> []" using "1.prems" by auto
    have so: "sorted (acc @ [int (length (star_arr sd lo up)) + last acc])"
      using "1.prems"(4) ne by (simp add: sorted_snoc)
    show ?thesis
      using "1.IH" [OF True lo up li step] "1.prems" so by simp
  qed
qed

lemma bucket_loop_total:
  "\<forall>k. 1 \<le> k \<and> k \<le> c \<longrightarrow> (\<exists>d. bucket_date m dl k = Inr d) \<Longrightarrow> int (length acc) = i
   \<Longrightarrow> 1 \<le> i \<Longrightarrow> \<exists>s. bucket_loop m dl sd c i acc = Inr s"
proof (induction m dl sd c i acc rule: bucket_loop.induct)
  case (1 m dl sd c i acc)
  show ?case
  proof (cases "i < c")
    case False
    then show ?thesis by (simp add: bucket_loop_done)
  next
    case True
    have "\<exists>d. bucket_date m dl i = Inr d" and "\<exists>d. bucket_date m dl (i + 1) = Inr d"
      using "1.prems"(1,3) True by auto
    then obtain lo up
      where lo: "bucket_date m dl i = Inr lo" and up: "bucket_date m dl (i + 1) = Inr up"
      by blast
    have li: "list_index acc (i - 1) = Inr (last acc)"
      using "1.prems" by (simp add: list_index_last)
    have "\<exists>s. bucket_loop m dl sd c (i + 1)
        (acc @ [int (length (star_arr sd lo up)) + last acc]) = Inr s"
      using "1.IH" [OF True lo up li] "1.prems" by simp
    then show ?thesis
      using bucket_loop_step [OF True "1.prems"(2,3) lo up, of sd] by simp
  qed
qed

lemma bucket_loop_hd:
  "bucket_loop m dl sd c i acc = Inr s \<Longrightarrow> int (length acc) = i \<Longrightarrow> 1 \<le> i \<Longrightarrow> hd s = hd acc"
proof (induction m dl sd c i acc rule: bucket_loop.induct)
  case (1 m dl sd c i acc)
  show ?case
  proof (cases "i < c")
    case False
    with "1.prems" show ?thesis by (simp add: bucket_loop_done)
  next
    case True
    from "1.prems"(1) True obtain lo up
      where lo: "bucket_date m dl i = Inr lo" and up: "bucket_date m dl (i + 1) = Inr up"
      by (subst (asm) bucket_loop.simps) (auto split: sum.splits)
    have li: "list_index acc (i - 1) = Inr (last acc)"
      using "1.prems" by (simp add: list_index_last)
    have step: "bucket_loop m dl sd c (i + 1)
        (acc @ [int (length (star_arr sd lo up)) + last acc]) = Inr s"
      using "1.prems"(1) bucket_loop_step [OF True "1.prems"(2,3) lo up, of sd] by simp
    have ne: "acc \<noteq> []" using "1.prems" by auto
    show ?thesis
      using "1.IH" [OF True lo up li step] "1.prems" ne by simp
  qed
qed
lemma graph_layout_loop:
  assumes "graph_layout today (rows, c) sd = Inr p"
  shows "\<exists>m rest dl. sd = m # rest \<and> bucket_loop m dl sd c 1 [0] = Inr (series p)"
  using assms
  by (auto simp: graph_layout_def on_ok_def split: list.splits sum.splits)

lemma graph_layout_length:
  assumes "graph_layout today (rows, c) sd = Inr p" and "0 < c"
  shows "int (length (series p)) = c"
proof -
  from graph_layout_loop [OF assms(1)] obtain m rest dl
    where "bucket_loop m dl sd c 1 [0] = Inr (series p)" by blast
  then show ?thesis
    using assms(2) bucket_loop_length [of m dl sd c 1 "[0]" "series p"] by simp
qed

lemma graph_layout_sorted:
  assumes "graph_layout today (rows, c) sd = Inr p"
  shows "sorted (series p)"
proof -
  from graph_layout_loop [OF assms(1)] obtain m rest dl
    where "bucket_loop m dl sd c 1 [0] = Inr (series p)" by blast
  then show ?thesis
    using bucket_loop_sorted [of m dl sd c 1 "[0]" "series p"] by simp
qed

lemma div_le_of_less_mult:
  assumes "0 < (u::int)" and "x < (n + 1) * u"
  shows "x div u \<le> n"
proof (rule ccontr)
  assume "\<not> x div u \<le> n"
  then have "n + 1 \<le> x div u" by simp
  then have "(n + 1) * u \<le> x div u * u"
    using assms(1) by (simp add: mult_right_mono)
  also have "\<dots> = x - x mod u" by (simp add: minus_mod_eq_div_mult)
  also have "\<dots> \<le> x" using assms(1) by simp
  finally show False using assms(2) by simp
qed

lemma offset_ok:
  assumes "0 < m" and "m + n \<le> MAXORDINAL" and "0 \<le> x" and "x < (n + 1) * us_per_day"
  shows "timedelta_of x = Inr x" and "date_add m x = Inr (m + x div us_per_day)"
proof -
  have d: "0 \<le> x div us_per_day \<and> x div us_per_day \<le> n"
    using assms(3,4) div_le_of_less_mult [of us_per_day x n]
    by (simp add: pos_imp_zdiv_nonneg_iff us_per_day_def)
  have n: "n < 999999999" using assms(1,2) by (simp add: MAXORDINAL_def)
  show "timedelta_of x = Inr x"
    using d n by (simp add: timedelta_of_def)
  show "date_add m x = Inr (m + x div us_per_day)"
    using d assms(1,2) by (simp add: date_add_def td_days_def Let_def)
qed

lemma bucket_date_ok:
  assumes "0 < m" and "m \<le> today" and "today \<le> MAXORDINAL" and "0 < c"
    and "c < 2 * us_per_day" and "0 \<le> k" and "k \<le> c"
  shows "\<exists>d. bucket_date m (divide_and_round ((today - m) * us_per_day) c) k = Inr d"
proof -
  define S where "S = (today - m) * us_per_day"
  define dl where "dl = divide_and_round S c"
  have S0: "0 \<le> S" using assms(2) by (simp add: S_def us_per_day_def)
  have dl0: "0 \<le> dl" using S0 assms(4) by (simp add: dl_def dar_nonneg)
  have up: "2 * (c * dl) \<le> 2 * S + c" using assms(4) by (simp add: dl_def dar_upper)
  have "k * dl \<le> c * dl" using assms(7) dl0 by (rule mult_right_mono)
  with up assms(5) have lt: "k * dl < (today - m + 1) * us_per_day"
    by (simp add: S_def us_per_day_def algebra_simps)
  have k0: "0 \<le> k * dl" using assms(6) dl0 by simp
  have "m + (today - m) \<le> MAXORDINAL" using assms(3) by simp
  from offset_ok [OF assms(1) this k0 lt]
  show ?thesis
    by (simp add: bucket_date_def td_mul_def on_ok_def dl_def S_def)
qed

lemma graph_layout_returns:
  assumes "sd \<noteq> []" and "0 < hd sd" and "hd sd \<le> today" and "today \<le> MAXORDINAL"
    and "0 < c" and "c < 2 * us_per_day"
  shows "\<exists>p. graph_layout today (rows, c) sd = Inr p"
proof -
  obtain m rest where sd: "sd = m # rest" using assms(1) by (cases sd) auto
  have m: "0 < m" "m \<le> today" using assms(2,3) sd by simp_all
  define S where "S = (today - m) * us_per_day"
  define dl where "dl = divide_and_round S c"
  define th where "th = divide_and_round dl 3"
  have S0: "0 \<le> S" using m(2) by (simp add: S_def us_per_day_def)
  have dl0: "0 \<le> dl" using S0 assms(5) by (simp add: dl_def dar_nonneg)
  have dlS: "dl \<le> S" using S0 assms(5) by (simp add: dl_def dar_le_self)
  have th0: "0 \<le> th" using dl0 by (simp add: th_def dar_nonneg)
  have "2 * (3 * th) \<le> 2 * dl + 3" unfolding th_def by (rule dar_upper) simp
  with dl0 have th2: "2 * th \<le> dl" by arith
  have mm: "m + (today - m) \<le> MAXORDINAL" using assms(4) by simp
  have lim: "\<And>x. 0 \<le> x \<Longrightarrow> x \<le> S \<Longrightarrow> x < (today - m + 1) * us_per_day"
    by (simp add: S_def us_per_day_def algebra_simps)
  have span: "date_sub today m = Inr S"
    using offset_ok(1) [OF m(1) mm S0 lim [OF S0]] by (simp add: date_sub_def S_def)
  have delta: "td_truediv S c = Inr dl"
    using offset_ok(1) [OF m(1) mm dl0 lim [OF dl0 dlS]] assms(5)
    by (simp add: td_truediv_def dl_def)
  have thS: "th \<le> S" using th2 th0 dlS by arith
  have third: "td_truediv dl 3 = Inr th"
    using offset_ok(1) [OF m(1) mm th0 lim [OF th0 thS]]
    by (simp add: td_truediv_def th_def)
  have th2S: "2 * th \<le> S" using th2 dlS by arith
  have th20: "0 \<le> 2 * th" using th0 by simp
  have d2: "\<exists>d. on_ok (on_ok (td_truediv dl 3) (td_mul 1)) (date_add m) = Inr d"
    using offset_ok [OF m(1) mm th0 lim [OF th0 thS]]
    by (simp add: third on_ok_def td_mul_def)
  have d3: "\<exists>d. on_ok (on_ok (td_truediv dl 3) (td_mul 2)) (date_add m) = Inr d"
    using offset_ok [OF m(1) mm th20 lim [OF th20 th2S]]
    by (simp add: third on_ok_def td_mul_def)
  have "\<forall>k. 1 \<le> k \<and> k \<le> c \<longrightarrow> (\<exists>d. bucket_date m dl k = Inr d)"
    using bucket_date_ok [OF m assms(4,5,6)] by (simp add: dl_def S_def)
  then have "\<exists>s. bucket_loop m dl sd c 1 [0] = Inr s"
    by (rule bucket_loop_total) simp_all
  with d2 d3 show ?thesis
    by (auto simp: graph_layout_def sd span delta on_ok_def)
qed

lemma graph_layout_hd:
  assumes "graph_layout today (rows, c) sd = Inr p"
  shows "hd (series p) = 0"
proof -
  from graph_layout_loop [OF assms(1)] obtain m rest dl
    where "bucket_loop m dl sd c 1 [0] = Inr (series p)" by blast
  then show ?thesis
    using bucket_loop_hd [of m dl sd c 1 "[0]" "series p"] by simp
qed

lemma on_ok_Inr: "on_ok (Inr v) f = f v"
  by (simp add: on_ok_def)

lemma ymd2ord_2020_01: "ymd2ord 2020 1 d = 737424 + d"
  by (simp add: ymd2ord_def days_before_year_def days_before_month_def)

lemmas date_eval = bucket_date_def td_mul_def timedelta_of_def date_add_def td_days_def
  td_truediv_def divide_and_round_def date_sub_def on_ok_def us_per_day_def MAXORDINAL_def
  Let_def

lemma bucket_loop_two_events:
  "bucket_loop 737425 172800000000 [737425, 737427] 5 1 [0] = Inr [0, 1, 1, 1, 1]"
  by (simp add: bucket_loop.simps date_eval star_arr_def list_index_def)

lemma bucket_loop_one_event:
  "bucket_loop 737425 172800000000 [737425] 5 1 [0] = Inr [0, 0, 0, 0, 0]"
  by (simp add: bucket_loop.simps date_eval star_arr_def list_index_def)

lemma upto_0_4: "[0..4] = [0, 1, 2, 3, 4]"
  by (simp add: upto.simps)

lemma graph_layout_two_events:
  "graph_layout (ymd2ord 2020 1 11) (24, 5) [ymd2ord 2020 1 1, ymd2ord 2020 1 3]
     = Inr (Plot [0, 1, 2, 3, 4] [0, 1, 1, 1, 1] 24 5)"
proof -
  have a: "date_sub 737435 737425 = Inr 864000000000" by (simp add: date_eval)
  have b: "td_truediv 864000000000 5 = Inr 172800000000" by (simp add: date_eval)
  have c: "td_truediv 172800000000 3 = Inr 57600000000" by (simp add: date_eval)
  have d: "td_mul 1 57600000000 = Inr 57600000000" "date_add 737425 57600000000 = Inr 737425"
    by (simp_all add: date_eval)
  have e: "td_mul 2 57600000000 = Inr 115200000000" "date_add 737425 115200000000 = Inr 737426"
    by (simp_all add: date_eval)
  show ?thesis
    by (simp add: graph_layout_def ymd2ord_2020_01 a b c d e on_ok_Inr bucket_loop_two_events
        upto_0_4)
qed

lemma graph_layout_one_event:
  "graph_layout (ymd2ord 2020 1 11) (24, 5) [ymd2ord 2020 1 1]
     = Inr (Plot [0, 1, 2, 3, 4] [0, 0, 0, 0, 0] 24 5)"
proof -
  have a: "date_sub 737435 737425 = Inr 864000000000" by (simp add: date_eval)
  have b: "td_truediv 864000000000 5 = Inr 172800000000" by (simp add: date_eval)
  have c: "td_truediv 172800000000 3 = Inr 57600000000" by (simp add: date_eval)
  have d: "td_mul 1 57600000000 = Inr 57600000000" "date_add 737425 57600000000 = Inr 737425"
    by (simp_all add: date_eval)
  have e: "td_mul 2 57600000000 = Inr 115200000000" "date_add 737425 115200000000 = Inr 737426"
    by (simp_all add: date_eval)
  show ?thesis
    by (simp add: graph_layout_def ymd2ord_2020_01 a b c d e on_ok_Inr bucket_loop_one_event
        upto_0_4)
qed

text \<open>
  C3: the code does not do what the claim says. The loop starts at column 1, whose
  bucket begins one \<open>date_delta\<close> after the first timestamp, so a timestamp in the first
  bucket is never counted. With the single timestamp 2020-01-01, the current date
  2020-01-11 and 5 columns the series is 0 throughout: its final value is 0, the number
  of timestamps is 1.
\<close>

theorem star_counts_miss_first_bucket:
  "graph_layout (ymd2ord 2020 1 11) (24, 5) [ymd2ord 2020 1 1]
     = Inr (Plot [0, 1, 2, 3, 4] [0, 0, 0, 0, 0] 24 5)
   \<and> last [0, 0, 0, 0, 0 :: int] \<noteq> int (length [ymd2ord 2020 1 1])"
  by (simp add: graph_layout_one_event)

text \<open>
  C4: for every non-empty, non-decreasing sequence of star timestamps and every positive
  column count, the cumulative-count series the aggregator passes to the plot is
  non-decreasing. The aggregator does return a series when the first timestamp is a
  valid date not after the current date and the column count is below 172800000000 (the
  number of half microseconds in a day, beyond which the date arithmetic can leave the
  calendar).
\<close>

theorem star_counts_non_decreasing:
  assumes "star_dates \<noteq> []" and "sorted star_dates" and "0 < col_count"
  shows "(\<forall>p. graph_layout today (row_count, col_count) star_dates = Inr p
            \<longrightarrow> sorted (series p))
       \<and> (0 < hd star_dates \<and> hd star_dates \<le> today \<and> today \<le> MAXORDINAL
            \<and> col_count < 2 * us_per_day
          \<longrightarrow> (\<exists>p. graph_layout today (row_count, col_count) star_dates = Inr p
                   \<and> sorted (series p)))"
  using graph_layout_sorted [of today row_count col_count star_dates]
    graph_layout_returns [OF assms(1) _ _ _ assms(3), of today row_count]
  by blast

theorem star_counts_non_decreasing_witness:
  "[ymd2ord 2020 1 1, ymd2ord 2020 1 3] \<noteq> [] \<and> sorted [ymd2ord 2020 1 1, ymd2ord 2020 1 3]
   \<and> (0::int) < 5 \<and> 0 < hd [ymd2ord 2020 1 1, ymd2ord 2020 1 3]
   \<and> hd [ymd2ord 2020 1 1, ymd2ord 2020 1 3] \<le> ymd2ord 2020 1 11
   \<and> ymd2ord 2020 1 11 \<le> MAXORDINAL \<and> 5 < 2 * us_per_day
   \<and> (\<exists>p. graph_layout (ymd2ord 2020 1 11) (24, 5) [ymd2ord 2020 1 1, ymd2ord 2020 1 3] = Inr p
          \<and> sorted (series p))"
  using star_counts_non_decreasing
    [of "[ymd2ord 2020 1 1, ymd2ord 2020 1 3]" 5 "ymd2ord 2020 1 11" 24]
  by (simp add: ymd2ord_2020_01 MAXORDINAL_def us_per_day_def)

text \<open>
  C5: with the first timestamp 2020-01-01, the current date 2020-01-11 and 5 columns,
  the span is 10 days and each bucket spans 2 days. Bucket 1 is the half-open interval
  from 2020-01-03 to 2020-01-05; an event dated 2020-01-03 lies in it, and neither in
  bucket 0 (2020-01-01 to 2020-01-03) nor in bucket 2 (2020-01-05 to 2020-01-07). In the
  series the event is counted at index 1.
\<close>

theorem bucket_of_third_of_january:
  "date_sub (ymd2ord 2020 1 11) (ymd2ord 2020 1 1) = Inr (10 * us_per_day)
   \<and> td_truediv (10 * us_per_day) 5 = Inr (2 * us_per_day)
   \<and> bucket_date (ymd2ord 2020 1 1) (2 * us_per_day) 0 = Inr (ymd2ord 2020 1 1)
   \<and> bucket_date (ymd2ord 2020 1 1) (2 * us_per_day) 1 = Inr (ymd2ord 2020 1 3)
   \<and> bucket_date (ymd2ord 2020 1 1) (2 * us_per_day) 2 = Inr (ymd2ord 2020 1 5)
   \<and> bucket_date (ymd2ord 2020 1 1) (2 * us_per_day) 3 = Inr (ymd2ord 2020 1 7)
   \<and> star_arr [ymd2ord 2020 1 3] (ymd2ord 2020 1 3) (ymd2ord 2020 1 5) = [ymd2ord 2020 1 3]
   \<and> star_arr [ymd2ord 2020 1 3] (ymd2ord 2020 1 1) (ymd2ord 2020 1 3) = []
   \<and> star_arr [ymd2ord 2020 1 3] (ymd2ord 2020 1 5) (ymd2ord 2020 1 7) = []
   \<and> graph_layout (ymd2ord 2020 1 11) (24, 5) [ymd2ord 2020 1 1, ymd2ord 2020 1 3]
       = Inr (Plot [0, 1, 2, 3, 4] [0, 1, 1, 1, 1] 24 5)"
  by (simp add: graph_layout_two_events) (simp add: ymd2ord_2020_01 date_eval star_arr_def)

text \<open>
  C8: for every non-empty timestamp sequence and every positive column count, the
  cumulative-count series the aggregator passes to the plot has exactly as many entries
  as the terminal has columns, and its entry 0 is the seed 0. The aggregator does return
  a series when the first timestamp is a valid date not after the current date and the
  column count is below 172800000000.
\<close>

theorem star_counts_length:
  assumes "star_dates \<noteq> []" and "0 < col_count"
  shows "(\<forall>p. graph_layout today (row_count, col_count) star_dates = Inr p
            \<longrightarrow> int (length (series p)) = col_count \<and> hd (series p) = 0)
       \<and> (0 < hd star_dates \<and> hd star_dates \<le> today \<and> today \<le> MAXORDINAL
            \<and> col_count < 2 * us_per_day
          \<longrightarrow> (\<exists>p. graph_layout today (row_count, col_count) star_dates = Inr p
                   \<and> int (length (series p)) = col_count))"
  using graph_layout_length [of today row_count col_count star_dates, OF _ assms(2)]
    graph_layout_hd [of today row_count col_count star_dates]
    graph_layout_returns [OF assms(1) _ _ _ assms(2), of today row_count]
  by blast

theorem star_counts_length_witness:
  "[ymd2ord 2020 1 1, ymd2ord 2020 1 3] \<noteq> []
   \<and> (0::int) < 5 \<and> 0 < hd [ymd2ord 2020 1 1, ymd2ord 2020 1 3]
   \<and> hd [ymd2ord 2020 1 1, ymd2ord 2020 1 3] \<le> ymd2ord 2020 1 11
   \<and> ymd2ord 2020 1 11 \<le> MAXORDINAL \<and> 5 < 2 * us_per_day
   \<and> (\<exists>p. graph_layout (ymd2ord 2020 1 11) (24, 5) [ymd2ord 2020 1 1, ymd2ord 2020 1 3] = Inr p
          \<and> int (length (series p)) = 5 \<and> hd (series p) = 0)"
  using star_counts_length
    [of "[ymd2ord 2020 1 1, ymd2ord 2020 1 3]" 5 "ymd2ord 2020 1 11" 24]
  by (auto simp: ymd2ord_2020_01 MAXORDINAL_def us_per_day_def)

end
